theory Spec2Isabelle
  imports Complex_Main "HOL-Library.Word"
begin

section \<open>SCTE-35 splice descriptors (threefive/descriptors.py)\<close>

text \<open>
  The descriptors are decoded from a byte slice with a bit reader and written back with a
  bit writer. Python's \<open>bytes\<close> are lists of 8-bit words, Python's integers are
  \<open>nat\<close> and \<open>int\<close>, attributes that start as \<open>None\<close> are options, and every
  exception of the source is a value of \<open>error\<close>.
\<close>

type_synonym byte = "8 word"

datatype error =
    BufferUnderrun
  | ValueError
  | IndexError
  | KeyError
  | TypeError
  | UnicodeDecodeError

definition bindE :: "error + 'a \<Rightarrow> ('a \<Rightarrow> error + 'b) \<Rightarrow> error + 'b" where
  "bindE m f = (case m of Inl e \<Rightarrow> Inl e | Inr a \<Rightarrow> f a)"

subsection \<open>Bits, bytes and text\<close>

text \<open>Big-endian bits of a value at a given width, and the value of a run of bits.\<close>

primrec nat_to_bl :: "nat \<Rightarrow> nat \<Rightarrow> bool list" where
  "nat_to_bl 0 v = []"
| "nat_to_bl (Suc n) v = nat_to_bl n (v div 2) @ [odd v]"

definition bl_to_nat :: "bool list \<Rightarrow> nat" where
  "bl_to_nat bs = foldl (\<lambda>a b. 2 * a + (if b then 1 else 0)) 0 bs"

definition byte_bits :: "byte \<Rightarrow> bool list" where
  "byte_bits w = nat_to_bl 8 (unat w)"

definition bytes_bits :: "byte list \<Rightarrow> bool list" where
  "bytes_bits bs = concat (map byte_bits bs)"

fun chunk8 :: "bool list \<Rightarrow> byte list" where
  "chunk8 (a # b # c # d # e # f # g # h # rest) =
     of_nat (bl_to_nat [a, b, c, d, e, f, g, h]) # chunk8 rest"
| "chunk8 _ = []"

text \<open>
  A run of bits as bytes: the run is one big-endian number, so a run that is not a whole
  number of bytes is padded with zero bits in front.
\<close>

definition bits_bytes :: "bool list \<Rightarrow> byte list" where
  "bits_bytes bs = chunk8 (replicate ((8 - length bs mod 8) mod 8) False @ bs)"

text \<open>Python's \<open>hex\<close>, \<open>str\<close> of an integer and \<open>int(s, 16)\<close>.\<close>

definition hex_digit :: "nat \<Rightarrow> char" where
  "hex_digit d = ''0123456789abcdef'' ! d"

fun hex_digits :: "nat \<Rightarrow> string" where
  "hex_digits n = (if n < 16 then [hex_digit n] else hex_digits (n div 16) @ [hex_digit (n mod 16)])"

definition hex :: "nat \<Rightarrow> string" where
  "hex n = ''0x'' @ hex_digits n"

fun dec_digits :: "nat \<Rightarrow> string" where
  "dec_digits n = (if n < 10 then [hex_digit n] else dec_digits (n div 10) @ [hex_digit (n mod 10)])"

definition hex_value :: "char \<Rightarrow> nat option" where
  "hex_value c =
     (let k = of_char c :: nat in
      if 48 \<le> k \<and> k \<le> 57 then Some (k - 48)
      else if 97 \<le> k \<and> k \<le> 102 then Some (k - 87)
      else if 65 \<le> k \<and> k \<le> 70 then Some (k - 55)
      else None)"

fun hex_fold :: "nat \<Rightarrow> string \<Rightarrow> nat option" where
  "hex_fold acc [] = Some acc"
| "hex_fold acc (c # cs) =
     (case hex_value c of None \<Rightarrow> None | Some v \<Rightarrow> hex_fold (16 * acc + v) cs)"

text \<open>\<open>int(s, 16)\<close>: an optional \<open>0x\<close> prefix, then at least one hexadecimal digit.\<close>

definition int16 :: "string \<Rightarrow> error + nat" where
  "int16 s =
     (let ds = (if take 2 s = ''0x'' \<or> take 2 s = ''0X'' then drop 2 s else s) in
      if ds = [] then Inl ValueError
      else case hex_fold 0 ds of None \<Rightarrow> Inl ValueError | Some v \<Rightarrow> Inr v)"

subsection \<open>The bit reader\<close>

text \<open>
  Modelled from the spec: the reader \<open>BitBin\<close> comes from the package \<open>bitn\<close>, which is
  not among the sources. The specification's read side is a cursor over an immutable
  buffer, with its position counted in bits from the buffer's start: a read of \<open>n\<close> bits
  gives the unsigned big-endian value of the next \<open>n\<close> bits and advances by \<open>n\<close>, or
  fails with \<open>BufferUnderrun\<close> when fewer than \<open>n\<close> bits remain; a skip advances without
  producing a value. The source reads the attribute \<open>idx\<close> as the number of bits that
  remain. The widths the source computes can be negative (\<open>(upid_length - 4) << 3\<close>);
  the specification says nothing of them, and Python's shifts raise \<open>ValueError\<close> on a
  negative count.
\<close>

record bitbin =
  buf :: "bool list"
  pos :: nat

definition BitBin :: "byte list \<Rightarrow> bitbin" where
  "BitBin bs = \<lparr>buf = bytes_bits bs, pos = 0\<rparr>"

definition idx :: "bitbin \<Rightarrow> int" where
  "idx bb = int (length (buf bb)) - int (pos bb)"

definition peek :: "bitbin \<Rightarrow> nat \<Rightarrow> bool list" where
  "peek bb n = take n (drop (pos bb) (buf bb))"

definition advance :: "bitbin \<Rightarrow> nat \<Rightarrow> bitbin" where
  "advance bb n = bb\<lparr>pos := pos bb + n\<rparr>"

definition asbits :: "bitbin \<Rightarrow> int \<Rightarrow> error + bool list \<times> bitbin" where
  "asbits bb n =
     (if n < 0 then Inl ValueError
      else if idx bb < n then Inl BufferUnderrun
      else Inr (peek bb (nat n), advance bb (nat n)))"

definition asint :: "bitbin \<Rightarrow> int \<Rightarrow> error + nat \<times> bitbin" where
  "asint bb n = bindE (asbits bb n) (\<lambda>(bs, bb'). Inr (bl_to_nat bs, bb'))"

definition asflag :: "bitbin \<Rightarrow> int \<Rightarrow> error + bool \<times> bitbin" where
  "asflag bb n = bindE (asint bb n) (\<lambda>(v, bb'). Inr (odd v, bb'))"

definition ashex :: "bitbin \<Rightarrow> int \<Rightarrow> error + string \<times> bitbin" where
  "ashex bb n = bindE (asint bb n) (\<lambda>(v, bb'). Inr (hex v, bb'))"

text \<open>
  The decoded text is kept as its bytes (a HOL character is a byte); the specification
  leaves open whether a byte sequence that is not UTF-8 is replaced or dropped, and no
  statement below depends on it.
\<close>

definition asdecodedhex :: "bitbin \<Rightarrow> int \<Rightarrow> error + string \<times> bitbin" where
  "asdecodedhex bb n =
     bindE (asbits bb n) (\<lambda>(bs, bb'). Inr (map (\<lambda>w. char_of (unat w)) (bits_bytes bs), bb'))"

definition as90k :: "bitbin \<Rightarrow> int \<Rightarrow> error + rat \<times> bitbin" where
  "as90k bb n = bindE (asint bb n) (\<lambda>(v, bb'). Inr (of_nat v / 90000, bb'))"

definition forward :: "bitbin \<Rightarrow> nat \<Rightarrow> bitbin" where
  "forward bb n = advance bb n"

subsection \<open>The bit writer\<close>

text \<open>
  Modelled from the spec: the writer \<open>NBin\<close> comes from \<open>bitn\<close> as well. The
  specification's write side mirrors the reads and accumulates an output buffer; a skip
  on the write side emits zero bits. A value is written at its width, big-endian; its
  bits above the width are not written.
\<close>

type_synonym nbin = "bool list"

definition NBin :: nbin where
  "NBin = []"

definition nbin_bites :: "nbin \<Rightarrow> byte list" where
  "nbin_bites nb = bits_bytes nb"

definition add_int :: "nbin \<Rightarrow> nat option \<Rightarrow> nat \<Rightarrow> error + nbin" where
  "add_int nb v n = (case v of None \<Rightarrow> Inl TypeError | Some x \<Rightarrow> Inr (nb @ nat_to_bl n x))"

definition add_flag :: "nbin \<Rightarrow> bool option \<Rightarrow> error + nbin" where
  "add_flag nb v = (case v of None \<Rightarrow> Inl TypeError | Some b \<Rightarrow> Inr (nb @ [b]))"

definition add_hex :: "nbin \<Rightarrow> string \<Rightarrow> nat \<Rightarrow> error + nbin" where
  "add_hex nb s n = bindE (int16 s) (\<lambda>v. add_int nb (Some v) n)"

definition nbin_forward :: "nbin \<Rightarrow> nat \<Rightarrow> nbin" where
  "nbin_forward nb n = nb @ replicate n False"

subsection \<open>The base class\<close>

text \<open>
  What the descriptors write to standard error: the warning of \<open>parse_id\<close>, and the
  bytes an \<open>encode\<close> has accumulated.
\<close>

datatype stderr_line = IdentifierWarning | DescriptorBytes "byte list"

text \<open>
  The attributes of \<open>SpliceDescriptor\<close>. The subclasses extend the record; \<open>name\<close> is
  set by each subclass right after the base initialiser and is \<open>None\<close> where the base
  class has no such attribute.
\<close>

record splice_descriptor =
  tag :: "nat option"
  descriptor_length :: "nat option"
  "identifier" :: "string option"
  bites :: "byte list option"
  name :: "string option"

text \<open>
  \<open>SpliceDescriptor.__init__\<close>: the values of \<open>tag\<close>, \<open>descriptor_length\<close> and
  \<open>bites\<close>. An empty slice is falsy and is kept as it is; a slice of one byte has no
  \<open>bites[1]\<close>.
\<close>

definition splice_init ::
  "byte list option \<Rightarrow> error + nat option \<times> nat option \<times> byte list option" where
  "splice_init b =
     (case b of
        None \<Rightarrow> Inr (None, None, None)
      | Some [] \<Rightarrow> Inr (None, None, Some [])
      | Some [t] \<Rightarrow> Inl IndexError
      | Some (t # l # rest) \<Rightarrow> Inr (Some (unat t), Some (unat l), Some rest))"

definition SpliceDescriptor :: "byte list option \<Rightarrow> error + splice_descriptor" where
  "SpliceDescriptor b =
     bindE (splice_init b) (\<lambda>(t, l, bs).
       Inr \<lparr>tag = t, descriptor_length = l, identifier = None, bites = bs, name = None\<rparr>)"

text \<open>\<open>BitBin(self.bites)\<close>: there is no reader over \<open>None\<close>.\<close>

definition open_bites :: "'a splice_descriptor_scheme \<Rightarrow> error + bitbin" where
  "open_bites d = (case bites d of None \<Rightarrow> Inl TypeError | Some bs \<Rightarrow> Inr (BitBin bs))"

definition encode_meta :: "'a splice_descriptor_scheme \<Rightarrow> nbin \<Rightarrow> error + nbin" where
  "encode_meta d nb =
     bindE (add_int nb (tag d) 8) (\<lambda>nb1. add_int nb1 (descriptor_length d) 8)"

definition parse_id ::
  "'a splice_descriptor_scheme \<Rightarrow> bitbin \<Rightarrow>
     error + 'a splice_descriptor_scheme \<times> bitbin \<times> stderr_line list" where
  "parse_id d bb =
     bindE (asdecodedhex bb 32) (\<lambda>(s, bb').
       Inr (d\<lparr>identifier := Some s\<rparr>, bb',
            if s \<noteq> ''CUEI'' then [IdentifierWarning] else []))"

definition encode_id ::
  "'a splice_descriptor_scheme \<Rightarrow> nbin \<Rightarrow> error + 'a splice_descriptor_scheme \<times> nbin" where
  "encode_id d nb =
     (let d' = d\<lparr>identifier := Some ''0x43554549''\<rparr> in
      bindE (add_hex nb (the (identifier d')) 32) (\<lambda>nb'. Inr (d', nb')))"

text \<open>\<open>SpliceDescriptor.encode\<close> returns the writer.\<close>

definition encode ::
  "'a splice_descriptor_scheme \<Rightarrow> error + 'a splice_descriptor_scheme \<times> nbin" where
  "encode d = bindE (encode_meta d NBin) (\<lambda>nb. encode_id d nb)"

subsection \<open>Avail, DTMF, Time and Audio\<close>

text \<open>
  The \<open>encode\<close> of a subclass has no \<open>return\<close>: its value is Python's \<open>None\<close>, the
  third component of the result, where the base class's \<open>encode\<close> would give the
  writer. The second component is what the call writes to standard error.
\<close>

record avail_descriptor = splice_descriptor +
  provider_avail_id :: "nat option"

definition AvailDescriptor :: "byte list option \<Rightarrow> error + avail_descriptor" where
  "AvailDescriptor b =
     bindE (splice_init b) (\<lambda>(t, l, bs).
       Inr \<lparr>tag = t, descriptor_length = l, identifier = None, bites = bs,
            name = Some ''Avail Descriptor'', provider_avail_id = None\<rparr>)"

definition avail_encode ::
  "avail_descriptor \<Rightarrow> error + avail_descriptor \<times> stderr_line list \<times> nbin option" where
  "avail_encode d =
     bindE (encode d) (\<lambda>(d1, nb).
     bindE (add_int nb (provider_avail_id d1) 32) (\<lambda>nb1.
       Inr (d1, [DescriptorBytes (nbin_bites nb1)], None)))"

definition avail_decode ::
  "avail_descriptor \<Rightarrow> error + avail_descriptor \<times> stderr_line list" where
  "avail_decode d =
     bindE (open_bites d) (\<lambda>bb.
     bindE (parse_id d bb) (\<lambda>(d1, bb1, log1).
     bindE (asint bb1 32) (\<lambda>(v, bb2).
     bindE (avail_encode (d1\<lparr>provider_avail_id := Some v\<rparr>)) (\<lambda>(d2, log2, r).
       Inr (d2, log1 @ log2)))))"

record dtmf_descriptor = splice_descriptor +
  preroll :: "nat option"
  dtmf_count :: "nat option"
  dtmf_chars :: "string list"

definition DtmfDescriptor :: "byte list option \<Rightarrow> error + dtmf_descriptor" where
  "DtmfDescriptor b =
     bindE (splice_init b) (\<lambda>(t, l, bs).
       Inr \<lparr>tag = t, descriptor_length = l, identifier = None, bites = bs,
            name = Some ''DTMF Descriptor'', preroll = None, dtmf_count = None,
            dtmf_chars = []\<rparr>)"

text \<open>
  Modelled from the spec: \<open>i2b\<close> of threefive/tools.py is not among the sources. The
  specification has each DTMF character stored as an 8-bit ASCII code point:
  \<open>i2b(v, 1).decode("utf-8")\<close> is the one-character string of the byte \<open>v\<close>, and a
  byte above 127 is not UTF-8 on its own.
\<close>

definition i2b_decode :: "nat \<Rightarrow> error + string" where
  "i2b_decode v = (if v < 128 then Inr [char_of v] else Inl UnicodeDecodeError)"

text \<open>Python's \<open>ord\<close>, of a string of one character.\<close>

definition ord :: "string \<Rightarrow> error + nat" where
  "ord s = (case s of [c] \<Rightarrow> Inr (of_char c) | _ \<Rightarrow> Inl TypeError)"

primrec dtmf_decode_loop ::
  "nat \<Rightarrow> bitbin \<Rightarrow> string list \<Rightarrow> error + string list \<times> bitbin" where
  "dtmf_decode_loop 0 bb cs = Inr (cs, bb)"
| "dtmf_decode_loop (Suc d_c) bb cs =
     bindE (asint bb 8) (\<lambda>(v, bb').
     bindE (i2b_decode v) (\<lambda>s. dtmf_decode_loop d_c bb' (cs @ [s])))"

function dtmf_encode_loop :: "nat \<Rightarrow> string list \<Rightarrow> nat \<Rightarrow> nbin \<Rightarrow> error + nbin" where
  "dtmf_encode_loop count cs d_c nb =
     (if d_c < count then
        (if d_c < length cs then
           bindE (ord (cs ! d_c)) (\<lambda>v.
           bindE (add_int nb (Some v) 8) (\<lambda>nb'. dtmf_encode_loop count cs (d_c + 1) nb'))
         else Inl IndexError)
      else Inr nb)"
  by pat_completeness auto
termination
  by (relation "measure (\<lambda>(count, cs, d_c, nb). count - d_c)") auto

definition dtmf_encode ::
  "dtmf_descriptor \<Rightarrow> error + dtmf_descriptor \<times> stderr_line list \<times> nbin option" where
  "dtmf_encode d =
     bindE (encode d) (\<lambda>(d1, nb).
     bindE (add_int nb (preroll d1) 8) (\<lambda>nb1.
     bindE (add_int nb1 (dtmf_count d1) 3) (\<lambda>nb2.
     bindE (dtmf_encode_loop (the (dtmf_count d1)) (dtmf_chars d1) 0 (nbin_forward nb2 5)) (\<lambda>nb3.
       Inr (d1, [DescriptorBytes (nbin_bites nb3)], None)))))"

definition dtmf_decode ::
  "dtmf_descriptor \<Rightarrow> error + dtmf_descriptor \<times> stderr_line list" where
  "dtmf_decode d =
     bindE (open_bites d) (\<lambda>bb.
     bindE (parse_id d bb) (\<lambda>(d1, bb1, log1).
     bindE (asint bb1 8) (\<lambda>(p, bb2).
     bindE (asint bb2 3) (\<lambda>(c, bb3).
     bindE (dtmf_decode_loop c (forward bb3 5) (dtmf_chars d1)) (\<lambda>(cs, bb4).
     bindE (dtmf_encode (d1\<lparr>preroll := Some p, dtmf_count := Some c, dtmf_chars := cs\<rparr>))
       (\<lambda>(d2, log2, r). Inr (d2, log1 @ log2)))))))"

record time_descriptor = splice_descriptor +
  tai_seconds :: "nat option"
  tai_ns :: "nat option"
  utc_offset :: "nat option"

definition TimeDescriptor :: "byte list option \<Rightarrow> error + time_descriptor" where
  "TimeDescriptor b =
     bindE (splice_init b) (\<lambda>(t, l, bs).
       Inr \<lparr>tag = t, descriptor_length = l, identifier = None, bites = bs,
            name = Some ''Time Descriptor'', tai_seconds = None, tai_ns = None,
            utc_offset = None\<rparr>)"

definition time_decode ::
  "time_descriptor \<Rightarrow> error + time_descriptor \<times> stderr_line list" where
  "time_decode d =
     bindE (open_bites d) (\<lambda>bb.
     bindE (parse_id d bb) (\<lambda>(d1, bb1, log1).
     bindE (asint bb1 48) (\<lambda>(s, bb2).
     bindE (asint bb2 32) (\<lambda>(ns, bb3).
     bindE (asint bb3 16) (\<lambda>(u, bb4).
       Inr (d1\<lparr>tai_seconds := Some s, tai_ns := Some ns, utc_offset := Some u\<rparr>, log1))))))"

definition time_encode ::
  "time_descriptor \<Rightarrow> error + time_descriptor \<times> stderr_line list \<times> nbin option" where
  "time_encode d =
     bindE (encode d) (\<lambda>(d1, nb).
     bindE (add_int nb (tai_seconds d1) 48) (\<lambda>nb1.
     bindE (add_int nb1 (tai_ns d1) 32) (\<lambda>nb2.
     bindE (add_int nb2 (utc_offset d1) 16) (\<lambda>nb3.
       Inr (d1, [DescriptorBytes (nbin_bites nb3)], None)))))"

text \<open>
  An entry of the Audio descriptor's \<open>components\<close>, a dictionary with the keys
  \<open>component_tag\<close>, \<open>ISO_code=\<close>, \<open>bit_stream_mode\<close>, \<open>num_channels\<close> and
  \<open>full_srvc_audio\<close>. The list is \<open>audio_components\<close> here, the Segmentation descriptor
  having a \<open>components\<close> of its own.
\<close>

record audio_component =
  component_tag :: nat
  ISO_code :: nat
  bit_stream_mode :: nat
  num_channels :: nat
  full_srvc_audio :: bool

record audio_descriptor = splice_descriptor +
  audio_components :: "audio_component list"
  audio_count :: "nat option"

definition AudioDescriptor :: "byte list option \<Rightarrow> error + audio_descriptor" where
  "AudioDescriptor b =
     bindE (splice_init b) (\<lambda>(t, l, bs).
       Inr \<lparr>tag = t, descriptor_length = l, identifier = None, bites = bs,
            name = Some ''Audio Descriptor'', audio_components = [], audio_count = None\<rparr>)"

primrec audio_decode_loop ::
  "nat \<Rightarrow> bitbin \<Rightarrow> audio_component list \<Rightarrow> error + audio_component list \<times> bitbin" where
  "audio_decode_loop 0 bb comps = Inr (comps, bb)"
| "audio_decode_loop (Suc a_c) bb comps =
     bindE (asint bb 8) (\<lambda>(ct, bb1).
     bindE (asint bb1 24) (\<lambda>(iso, bb2).
     bindE (asint bb2 3) (\<lambda>(bsm, bb3).
     bindE (asint bb3 4) (\<lambda>(nc, bb4).
     bindE (asflag bb4 1) (\<lambda>(fsa, bb5).
       audio_decode_loop a_c bb5
         (comps @ [\<lparr>component_tag = ct, ISO_code = iso, bit_stream_mode = bsm,
                     num_channels = nc, full_srvc_audio = fsa\<rparr>]))))))"

definition audio_decode ::
  "audio_descriptor \<Rightarrow> error + audio_descriptor \<times> stderr_line list" where
  "audio_decode d =
     bindE (open_bites d) (\<lambda>bb.
     bindE (parse_id d bb) (\<lambda>(d1, bb1, log1).
     bindE (asint bb1 4) (\<lambda>(c, bb2).
     bindE (audio_decode_loop c (forward bb2 4) (audio_components d1)) (\<lambda>(comps, bb3).
       Inr (d1\<lparr>audio_count := Some c, audio_components := comps\<rparr>, log1)))))"

definition add_component :: "nbin \<Rightarrow> audio_component \<Rightarrow> error + nbin" where
  "add_component nb c =
     bindE (add_int nb (Some (component_tag c)) 8) (\<lambda>nb1.
     bindE (add_int nb1 (Some (ISO_code c)) 24) (\<lambda>nb2.
     bindE (add_int nb2 (Some (bit_stream_mode c)) 3) (\<lambda>nb3.
     bindE (add_int nb3 (Some (num_channels c)) 4) (\<lambda>nb4.
       add_flag nb4 (Some (full_srvc_audio c))))))"

text \<open>
  The loop of \<open>AudioDescriptor.encode\<close> never changes \<open>a_c\<close>. A run that does not
  return is the value \<open>None\<close>.
\<close>

partial_function (option) audio_encode_loop ::
  "nat \<Rightarrow> audio_component list \<Rightarrow> nat \<Rightarrow> nbin \<Rightarrow> (error + nbin) option" where
  "audio_encode_loop count comps a_c nb =
     (if a_c < count then
        (if a_c < length comps then
           (case add_component nb (comps ! a_c) of
              Inl e \<Rightarrow> Some (Inl e)
            | Inr nb' \<Rightarrow> audio_encode_loop count comps a_c nb')
         else Some (Inl IndexError))
      else Some (Inr nb))"

definition audio_encode ::
  "audio_descriptor \<Rightarrow> (error + audio_descriptor \<times> stderr_line list \<times> nbin option) option" where
  "audio_encode d =
     (case encode d of
        Inl e \<Rightarrow> Some (Inl e)
      | Inr (d1, nb) \<Rightarrow>
          (case add_int nb (audio_count d1) 4 of
             Inl e \<Rightarrow> Some (Inl e)
           | Inr nb1 \<Rightarrow>
               (case audio_encode_loop (the (audio_count d1)) (audio_components d1) 0
                       (nbin_forward nb1 4) of
                  None \<Rightarrow> None
                | Some (Inl e) \<Rightarrow> Some (Inl e)
                | Some (Inr nb2) \<Rightarrow> Some (Inr (d1, [], None)))))"

subsection \<open>The Segmentation descriptor\<close>

text \<open>
  Modelled from the spec: \<open>table20\<close> (the device restrictions, four entries) and
  \<open>table22\<close> (the labels of the known segmentation types) are defined in
  threefive/segmentation.py, which is not among the sources. The functions that read
  them take them as parameters.
\<close>

type_synonym table = "nat \<rightharpoonup> string"

text \<open>An entry of \<open>components\<close>: the keys \<open>component_tag\<close> and \<open>pts_offset\<close>.\<close>

record segmentation_component =
  seg_component_tag :: nat
  pts_offset :: rat

text \<open>
  What a UPID decoder returns: a string, \<open>None\<close> (a URI of length 0), the dictionary of
  \<open>_atsc\<close> (TSID, reserved, end_of_day, unique_for, content_id), the dictionary of
  \<open>_mpu\<close> (format identifier, private data) or the list of \<open>_mid\<close>. The formatted
  string \<open>f"{label}:{upid_id}"\<close> is kept as its two parts.
\<close>

datatype upid =
    UpidText string
  | UpidNone
  | UpidAtsc nat nat nat nat string
  | UpidMpu nat nat
  | UpidList "upid list"
  | Labelled string upid

record segmentation_descriptor = splice_descriptor +
  segmentation_event_id :: "string option"
  segmentation_event_cancel_indicator :: "bool option"
  component_count :: "nat option"
  components :: "segmentation_component list"
  program_segmentation_flag :: "bool option"
  segmentation_duration_flag :: "bool option"
  delivery_not_restricted_flag :: "bool option"
  web_delivery_allowed_flag :: "bool option"
  no_regional_blackout_flag :: "bool option"
  archive_allowed_flag :: "bool option"
  device_restrictions :: "string option"
  segmentation_duration :: "rat option"
  segmentation_message :: "string option"
  segmentation_upid_type :: "nat option"
  segmentation_upid_length :: "nat option"
  segmentation_upid :: "upid option"
  segmentation_type_id :: "nat option"
  segment_num :: "nat option"
  segments_expected :: "nat option"
  sub_segment_num :: "nat option"
  sub_segments_expected :: "nat option"

text \<open>The attributes as \<open>__init__\<close> leaves them, for given \<open>tag\<close>, length and \<open>bites\<close>.\<close>

definition segmentation_new ::
  "nat option \<Rightarrow> nat option \<Rightarrow> byte list option \<Rightarrow> segmentation_descriptor" where
  "segmentation_new t l bs =
     \<lparr>tag = t, descriptor_length = l, identifier = None, bites = bs,
      name = Some ''Segmentation Descriptor'',
      segmentation_event_id = None, segmentation_event_cancel_indicator = None,
      component_count = None, components = [],
      program_segmentation_flag = None, segmentation_duration_flag = None,
      delivery_not_restricted_flag = None, web_delivery_allowed_flag = None,
      no_regional_blackout_flag = None, archive_allowed_flag = None,
      device_restrictions = None, segmentation_duration = None,
      segmentation_message = None, segmentation_upid_type = None,
      segmentation_upid_length = None, segmentation_upid = None,
      segmentation_type_id = None, segment_num = None, segments_expected = None,
      sub_segment_num = None, sub_segments_expected = None\<rparr>"

definition SegmentationDescriptor :: "byte list option \<Rightarrow> error + segmentation_descriptor" where
  "SegmentationDescriptor b =
     bindE (splice_init b) (\<lambda>(t, l, bs). Inr (segmentation_new t l bs))"

primrec set_components_loop ::
  "nat \<Rightarrow> bitbin \<Rightarrow> segmentation_component list \<Rightarrow>
     error + segmentation_component list \<times> bitbin" where
  "set_components_loop 0 bb comps = Inr (comps, bb)"
| "set_components_loop (Suc c_c) bb comps =
     bindE (asint bb 8) (\<lambda>(ct, bb1).
     bindE (as90k (forward bb1 7) 33) (\<lambda>(po, bb2).
       set_components_loop c_c bb2 (comps @ [\<lparr>seg_component_tag = ct, pts_offset = po\<rparr>])))"

definition set_components ::
  "segmentation_descriptor \<Rightarrow> bitbin \<Rightarrow> error + segmentation_descriptor \<times> bitbin" where
  "set_components d bb =
     bindE (asint bb 8) (\<lambda>(c, bb1).
     bindE (set_components_loop c bb1 (components d)) (\<lambda>(comps, bb2).
       Inr (d\<lparr>component_count := Some c, components := comps\<rparr>, bb2)))"

definition set_flags ::
  "table \<Rightarrow> segmentation_descriptor \<Rightarrow> bitbin \<Rightarrow> error + segmentation_descriptor \<times> bitbin" where
  "set_flags table20 d bb =
     bindE (asflag bb 1) (\<lambda>(psf, bb1).
     bindE (asflag bb1 1) (\<lambda>(sdf, bb2).
     bindE (asflag bb2 1) (\<lambda>(dnr, bb3).
       let d1 = d\<lparr>program_segmentation_flag := Some psf,
                   segmentation_duration_flag := Some sdf,
                   delivery_not_restricted_flag := Some dnr\<rparr> in
       if \<not> dnr then
         bindE (asflag bb3 1) (\<lambda>(wda, bb4).
         bindE (asflag bb4 1) (\<lambda>(nrb, bb5).
         bindE (asflag bb5 1) (\<lambda>(aa, bb6).
         bindE (asint bb6 2) (\<lambda>(code, bb7).
           case table20 code of
             None \<Rightarrow> Inl KeyError
           | Some r \<Rightarrow>
               Inr (d1\<lparr>web_delivery_allowed_flag := Some wda,
                        no_regional_blackout_flag := Some nrb,
                        archive_allowed_flag := Some aa,
                        device_restrictions := Some r\<rparr>, bb7)))))
       else Inr (d1, forward bb3 5))))"

text \<open>The UPID decoders. \<open>upid_length << 3\<close> is \<open>upid_length * 8\<close>, also below zero.\<close>

definition air_id :: "bitbin \<Rightarrow> nat \<Rightarrow> error + upid \<times> bitbin" where
  "air_id bb upid_length =
     bindE (ashex bb (int upid_length * 8)) (\<lambda>(s, bb'). Inr (UpidText s, bb'))"

definition atsc :: "bitbin \<Rightarrow> nat \<Rightarrow> error + upid \<times> bitbin" where
  "atsc bb upid_length =
     bindE (asint bb 16) (\<lambda>(tsid, bb1).
     bindE (asint bb1 2) (\<lambda>(reserved, bb2).
     bindE (asint bb2 5) (\<lambda>(end_of_day, bb3).
     bindE (asint bb3 9) (\<lambda>(unique_for, bb4).
     bindE (asdecodedhex bb4 ((int upid_length - 4) * 8)) (\<lambda>(content_id, bb5).
       Inr (UpidAtsc tsid reserved end_of_day unique_for content_id, bb5))))))"

text \<open>Python's slice \<open>s[i:j]\<close> for \<open>0 \<le> i \<le> j\<close>.\<close>

definition slice :: "string \<Rightarrow> nat \<Rightarrow> nat \<Rightarrow> string" where
  "slice s i j = take (j - i) (drop i s)"

definition isan :: "bitbin \<Rightarrow> nat \<Rightarrow> error + upid \<times> bitbin" where
  "isan bb upid_length =
     bindE (ashex bb (int upid_length * 8)) (\<lambda>(middle, bb').
       Inr (UpidText (''0000-0000-'' @ slice middle 2 6 @ ''-0000-Z-0000-0000-6''), bb'))"

definition mpu :: "bitbin \<Rightarrow> nat \<Rightarrow> error + upid \<times> bitbin" where
  "mpu bb upid_length =
     (let b_c = int upid_length * 8 in
      bindE (asint bb 32) (\<lambda>(format_identifier, bb1).
      bindE (asint bb1 (b_c - 32)) (\<lambda>(private_data, bb2).
        Inr (UpidMpu format_identifier private_data, bb2))))"

definition eidr :: "bitbin \<Rightarrow> nat \<Rightarrow> error + upid \<times> bitbin" where
  "eidr bb upid_length =
     bindE (asint bb 16) (\<lambda>(pre, bb1).
     bindE (ashex bb1 80) (\<lambda>(post, bb2).
       Inr (UpidText (''10.'' @ dec_digits pre @ ''/'' @ slice post 2 6 @ ''-'' @
              slice post 6 10 @ ''-'' @ slice post 10 14 @ ''-'' @ slice post 14 18 @ ''-T''),
            bb2)))"

text \<open>
  \<open>"".join(s.split("x", 1))\<close> drops the first \<open>x\<close> of \<open>s\<close>; the list comprehension
  of \<open>_umid\<close> cuts the result into runs of \<open>n_u\<close> characters, joined by dots.
\<close>

definition drop_first_x :: "string \<Rightarrow> string" where
  "drop_first_x s =
     takeWhile (\<lambda>c. c \<noteq> CHR ''x'') s @ drop 1 (dropWhile (\<lambda>c. c \<noteq> CHR ''x'') s)"

function runs :: "nat \<Rightarrow> string \<Rightarrow> string list" where
  "runs n s = (if n = 0 \<or> s = [] then [] else take n s # runs n (drop n s))"
  by pat_completeness auto
termination
  by (relation "measure (\<lambda>(n, s). length s)") auto

fun join :: "string \<Rightarrow> string list \<Rightarrow> string" where
  "join sep [] = []"
| "join sep [x] = x"
| "join sep (x # y # ys) = x @ sep @ join sep (y # ys)"

definition umid :: "bitbin \<Rightarrow> nat \<Rightarrow> error + upid \<times> bitbin" where
  "umid bb upid_length =
     (let n_u = 8 in
      bindE (ashex bb (int upid_length * 8)) (\<lambda>(s, bb').
        Inr (UpidText (join ''.'' (runs n_u (drop_first_x s))), bb')))"

definition uri :: "bitbin \<Rightarrow> nat \<Rightarrow> error + upid \<times> bitbin" where
  "uri bb upid_length =
     (if upid_length > 0 then
        bindE (asdecodedhex bb (int upid_length * 8)) (\<lambda>(s, bb'). Inr (UpidText s, bb'))
      else Inr (UpidNone, bb))"

text \<open>
  The loop of \<open>_mid\<close> runs while its counter is not zero, and a counter below zero never
  comes back to zero, so the loop and the recursion through the dispatch take fuel: a
  result \<open>None\<close> is a run that has not returned within the fuel.
\<close>

type_synonym 'a run = "(error + 'a) option"

definition bindO :: "'a run \<Rightarrow> ('a \<Rightarrow> 'b run) \<Rightarrow> 'b run" where
  "bindO m f = (case m of None \<Rightarrow> None | Some (Inl e) \<Rightarrow> Some (Inl e) | Some (Inr a) \<Rightarrow> f a)"

type_synonym upid_decoder = "bitbin \<Rightarrow> nat \<Rightarrow> (upid \<times> bitbin) run"

definition returns :: "(bitbin \<Rightarrow> nat \<Rightarrow> error + upid \<times> bitbin) \<Rightarrow> upid_decoder" where
  "returns f = (\<lambda>bb upid_length. Some (f bb upid_length))"

text \<open>\<open>upid_map\<close>, with the decoder of its entry \<open>0x0D\<close> as a parameter.\<close>

definition upid_map :: "upid_decoder \<Rightarrow> nat \<rightharpoonup> string \<times> upid_decoder" where
  "upid_map mid_decoder = map_of
     [(0x02, (''Deprecated'', returns uri)),
      (0x03, (''Ad ID'', returns uri)),
      (0x04, (''UMID'', returns umid)),
      (0x05, (''ISAN'', returns isan)),
      (0x06, (''ISAN'', returns isan)),
      (0x07, (''TID'', returns uri)),
      (0x08, (''AiringID'', returns air_id)),
      (0x09, (''ADI'', returns uri)),
      (0x0A, (''EIDR'', returns eidr)),
      (0x0B, (''ATSC'', returns atsc)),
      (0x0C, (''MPU'', returns mpu)),
      (0x0D, (''MID'', mid_decoder)),
      (0x0E, (''ADS Info'', returns uri)),
      (0x0F, (''URI'', returns uri))]"

definition dispatch :: "upid_decoder \<Rightarrow> bitbin \<Rightarrow> nat \<Rightarrow> nat \<Rightarrow> (upid \<times> bitbin) run" where
  "dispatch mid_decoder bb upid_type upid_length =
     (case upid_map mid_decoder upid_type of
        None \<Rightarrow> Some (Inr (UpidText [], bb))
      | Some (label, decoder) \<Rightarrow>
          bindO (decoder bb upid_length) (\<lambda>(upid_id, bb').
            if upid_type \<noteq> 0x09 then Some (Inr (Labelled label upid_id, bb'))
            else Some (Inr (upid_id, bb'))))"

text \<open>
  The loop of \<open>_mid\<close>, from a given counter and list. It returns the list, the cursor
  and the counter it stopped at.
\<close>

primrec mid_loop ::
  "nat \<Rightarrow> bitbin \<Rightarrow> int \<Rightarrow> upid list \<Rightarrow> (upid list \<times> bitbin \<times> int) run" where
  "mid_loop 0 bb b_c upids = None"
| "mid_loop (Suc fuel) bb b_c upids =
     (if b_c = 0 then Some (Inr (upids, bb, b_c))
      else
        bindO (Some (asint bb 8)) (\<lambda>(upid_type, bb1).
        bindO (Some (asint bb1 8)) (\<lambda>(upid_length, bb2).
        bindO (dispatch
                 (\<lambda>bb' l'. bindO (mid_loop fuel bb' (int l' * 8) [])
                    (\<lambda>(us, bb'', c). Some (Inr (UpidList us, bb''))))
                 bb2 upid_type upid_length) (\<lambda>(segmentation_upid, bb3).
          mid_loop fuel bb3 (b_c - 8 - 8 - int upid_length * 8)
            (upids @ [segmentation_upid])))))"

definition mid :: "nat \<Rightarrow> upid_decoder" where
  "mid fuel bb upid_length =
     bindO (mid_loop fuel bb (int upid_length * 8) [])
       (\<lambda>(us, bb', c). Some (Inr (UpidList us, bb')))"

definition set_segmentation_upid ::
  "nat \<Rightarrow> bitbin \<Rightarrow> nat \<Rightarrow> nat \<Rightarrow> (upid \<times> bitbin) run" where
  "set_segmentation_upid fuel bb upid_type upid_length =
     dispatch (mid fuel) bb upid_type upid_length"

text \<open>Fuel that is enough for every cursor: one more than the bits that remain.\<close>

definition upid_fuel :: "bitbin \<Rightarrow> nat" where
  "upid_fuel bb = nat (idx bb) + 1"

definition sub_segment_types :: "nat list" where
  "sub_segment_types = [0x34, 0x36, 0x38, 0x3A]"

definition set_segments ::
  "segmentation_descriptor \<Rightarrow> bitbin \<Rightarrow> error + segmentation_descriptor \<times> bitbin" where
  "set_segments d bb =
     bindE (asint bb 8) (\<lambda>(sn, bb1).
     bindE (asint bb1 8) (\<lambda>(se, bb2).
       let d1 = d\<lparr>segment_num := Some sn, segments_expected := Some se\<rparr> in
       if segmentation_type_id d1 \<in> set (map Some sub_segment_types) then
         (if idx bb2 \<ge> 16 then
            bindE (asint bb2 8) (\<lambda>(ssn, bb3).
            bindE (asint bb3 8) (\<lambda>(sse, bb4).
              Inr (d1\<lparr>sub_segment_num := Some ssn, sub_segments_expected := Some sse\<rparr>, bb4)))
          else Inr (d1\<lparr>sub_segment_num := Some 0, sub_segments_expected := Some 0\<rparr>, bb2))
       else Inr (d1, bb2)))"

definition set_segmentation ::
  "table \<Rightarrow> segmentation_descriptor \<Rightarrow> bitbin \<Rightarrow> (segmentation_descriptor \<times> bitbin) run" where
  "set_segmentation table22 d bb =
     bindO (Some (if segmentation_duration_flag d = Some True then
                    bindE (as90k bb 40) (\<lambda>(dur, bb').
                      Inr (d\<lparr>segmentation_duration := Some dur\<rparr>, bb'))
                  else Inr (d, bb))) (\<lambda>(d1, bb1).
     bindO (Some (asint bb1 8)) (\<lambda>(ut, bb2).
     bindO (Some (asint bb2 8)) (\<lambda>(ul, bb3).
     bindO (set_segmentation_upid (upid_fuel bb3) bb3 ut ul) (\<lambda>(u, bb4).
     bindO (Some (asint bb4 8)) (\<lambda>(ti, bb5).
       let d2 = d1\<lparr>segmentation_upid_type := Some ut, segmentation_upid_length := Some ul,
                    segmentation_upid := Some u, segmentation_type_id := Some ti\<rparr> in
       case table22 ti of
         Some message \<Rightarrow> Some (set_segments (d2\<lparr>segmentation_message := Some message\<rparr>) bb5)
       | None \<Rightarrow> Some (Inr (d2, bb5)))))))"

text \<open>
  \<open>SegmentationDescriptor.decode\<close>. The cursor is local to the method; the model
  returns it with the descriptor, so that what was consumed can be stated.
\<close>

definition segmentation_decode ::
  "table \<Rightarrow> table \<Rightarrow> segmentation_descriptor \<Rightarrow>
     (segmentation_descriptor \<times> bitbin \<times> stderr_line list) run" where
  "segmentation_decode table20 table22 d =
     bindO (Some (open_bites d)) (\<lambda>bb.
     bindO (Some (parse_id d bb)) (\<lambda>(d1, bb1, log1).
     bindO (Some (ashex bb1 32)) (\<lambda>(event_id, bb2).
     bindO (Some (asflag bb2 1)) (\<lambda>(cancel, bb3).
       let d2 = d1\<lparr>segmentation_event_id := Some event_id,
                    segmentation_event_cancel_indicator := Some cancel\<rparr>;
           bb4 = forward bb3 7 in
       if \<not> cancel then
         bindO (Some (set_flags table20 d2 bb4)) (\<lambda>(d3, bb5).
         bindO (Some (if program_segmentation_flag d3 \<noteq> Some True
                      then set_components d3 bb5 else Inr (d3, bb5))) (\<lambda>(d4, bb6).
         bindO (set_segmentation table22 d4 bb6) (\<lambda>(d5, bb7).
           Some (Inr (d5, bb7, log1)))))
       else Some (Inr (d2, bb4, log1))))))"

subsection \<open>The registry\<close>

datatype descriptor =
    Avail avail_descriptor
  | Dtmf dtmf_descriptor
  | Segmentation segmentation_descriptor
  | Time time_descriptor
  | Audio audio_descriptor

datatype descriptor_class =
    AvailDescriptor_class
  | DtmfDescriptor_class
  | SegmentationDescriptor_class
  | TimeDescriptor_class
  | AudioDescriptor_class

definition descriptor_map :: "nat \<rightharpoonup> descriptor_class" where
  "descriptor_map = map_of
     [(0, AvailDescriptor_class),
      (1, DtmfDescriptor_class),
      (2, SegmentationDescriptor_class),
      (3, TimeDescriptor_class),
      (4, AudioDescriptor_class)]"

text \<open>\<open>descriptor_map[tag](bites)\<close> and \<open>spliced.decode()\<close>.\<close>

definition construct :: "descriptor_class \<Rightarrow> byte list \<Rightarrow> error + descriptor" where
  "construct c b =
     (case c of
        AvailDescriptor_class \<Rightarrow> bindE (AvailDescriptor (Some b)) (\<lambda>d. Inr (Avail d))
      | DtmfDescriptor_class \<Rightarrow> bindE (DtmfDescriptor (Some b)) (\<lambda>d. Inr (Dtmf d))
      | SegmentationDescriptor_class \<Rightarrow>
          bindE (SegmentationDescriptor (Some b)) (\<lambda>d. Inr (Segmentation d))
      | TimeDescriptor_class \<Rightarrow> bindE (TimeDescriptor (Some b)) (\<lambda>d. Inr (Time d))
      | AudioDescriptor_class \<Rightarrow> bindE (AudioDescriptor (Some b)) (\<lambda>d. Inr (Audio d)))"

definition decode :: "table \<Rightarrow> table \<Rightarrow> descriptor \<Rightarrow> (descriptor \<times> stderr_line list) run" where
  "decode table20 table22 spliced =
     (case spliced of
        Avail d \<Rightarrow> Some (bindE (avail_decode d) (\<lambda>(d', out). Inr (Avail d', out)))
      | Dtmf d \<Rightarrow> Some (bindE (dtmf_decode d) (\<lambda>(d', out). Inr (Dtmf d', out)))
      | Segmentation d \<Rightarrow>
          bindO (segmentation_decode table20 table22 d)
            (\<lambda>(d', bb, out). Some (Inr (Segmentation d', out)))
      | Time d \<Rightarrow> Some (bindE (time_decode d) (\<lambda>(d', out). Inr (Time d', out)))
      | Audio d \<Rightarrow> Some (bindE (audio_decode d) (\<lambda>(d', out). Inr (Audio d', out))))"

text \<open>\<open>splice_descriptor\<close> returns the decoded instance, or \<open>False\<close>.\<close>

datatype spliced = Instance descriptor | ReturnsFalse

definition splice_descriptor ::
  "table \<Rightarrow> table \<Rightarrow> byte list \<Rightarrow> (spliced \<times> stderr_line list) run" where
  "splice_descriptor table20 table22 b =
     (case b of
        [] \<Rightarrow> Some (Inl IndexError)
      | t # rest \<Rightarrow>
          (case descriptor_map (unat t) of
             None \<Rightarrow> Some (Inr (ReturnsFalse, []))
           | Some c \<Rightarrow>
               bindO (Some (construct c b)) (\<lambda>spliced.
               bindO (decode table20 table22 spliced) (\<lambda>(spliced', out).
                 Some (Inr (Instance spliced', out))))))"

text \<open>
  The method \<open>encode\<close> of an instance, by its class: the Segmentation descriptor has
  no override and runs the base class's \<open>encode\<close>, which returns the writer.
\<close>

definition descriptor_encode ::
  "descriptor \<Rightarrow> (descriptor \<times> stderr_line list \<times> nbin option) run" where
  "descriptor_encode spliced =
     (case spliced of
        Avail d \<Rightarrow> Some (bindE (avail_encode d) (\<lambda>(d', out, r). Inr (Avail d', out, r)))
      | Dtmf d \<Rightarrow> Some (bindE (dtmf_encode d) (\<lambda>(d', out, r). Inr (Dtmf d', out, r)))
      | Segmentation d \<Rightarrow>
          Some (bindE (encode d) (\<lambda>(d', nb). Inr (Segmentation d', [], Some nb)))
      | Time d \<Rightarrow> Some (bindE (time_encode d) (\<lambda>(d', out, r). Inr (Time d', out, r)))
      | Audio d \<Rightarrow>
          bindO (audio_encode d) (\<lambda>(d', out, r). Some (Inr (Audio d', out, r))))"

text \<open>The attribute \<open>identifier\<close> of an instance, and the instance with another one.\<close>

definition identifier_of :: "descriptor \<Rightarrow> string option" where
  "identifier_of spliced =
     (case spliced of
        Avail d \<Rightarrow> identifier d
      | Dtmf d \<Rightarrow> identifier d
      | Segmentation d \<Rightarrow> identifier d
      | Time d \<Rightarrow> identifier d
      | Audio d \<Rightarrow> identifier d)"

definition with_identifier :: "string option \<Rightarrow> descriptor \<Rightarrow> descriptor" where
  "with_identifier v spliced =
     (case spliced of
        Avail d \<Rightarrow> Avail (d\<lparr>identifier := v\<rparr>)
      | Dtmf d \<Rightarrow> Dtmf (d\<lparr>identifier := v\<rparr>)
      | Segmentation d \<Rightarrow> Segmentation (d\<lparr>identifier := v\<rparr>)
      | Time d \<Rightarrow> Time (d\<lparr>identifier := v\<rparr>)
      | Audio d \<Rightarrow> Audio (d\<lparr>identifier := v\<rparr>))"

section \<open>Properties\<close>

subsection \<open>Evaluation\<close>

lemma bindE_simps [simp]: "bindE (Inl e) f = Inl e" "bindE (Inr a) f = f a"
  by (simp_all add: bindE_def)

lemma bindO_simps [simp]:
  "bindO None f = None" "bindO (Some (Inl e)) f = Some (Inl e)" "bindO (Some (Inr a)) f = f a"
  by (simp_all add: bindO_def)

lemma nat_to_bl_numeral:
  "nat_to_bl (numeral k) (numeral v) =
     nat_to_bl (pred_numeral k) (numeral v div 2) @ [odd (numeral v :: nat)]"
  "nat_to_bl (numeral k) (Suc 0) = nat_to_bl (pred_numeral k) 0 @ [True]"
  "nat_to_bl (numeral k) 0 = nat_to_bl (pred_numeral k) 0 @ [False]"
  by (simp_all add: numeral_eq_Suc)

lemma replicate_numeral: "replicate (numeral k) x = x # replicate (pred_numeral k) x"
  by (simp add: numeral_eq_Suc)

lemma char_of_CUEI:
  "char_of (67::nat) = CHR ''C''" "char_of (85::nat) = CHR ''U''"
  "char_of (69::nat) = CHR ''E''" "char_of (73::nat) = CHR ''I''"
  by (simp_all add: char_of_def bit_numeral_simps bit_0)

lemmas cursor_defs = BitBin_def bytes_bits_def byte_bits_def asint_def asbits_def idx_def
  peek_def advance_def bl_to_nat_def asflag_def ashex_def asdecodedhex_def forward_def
  bits_bytes_def nat_to_bl_numeral replicate_numeral char_of_CUEI

lemmas encode_defs = encode_def encode_meta_def encode_id_def add_hex_def int16_def
  hex_value_def add_int_def add_flag_def nat_to_bl_numeral replicate_numeral

lemmas init_defs = splice_init_def open_bites_def parse_id_def

subsection \<open>The loop of the Audio descriptor's encode\<close>

lemma add_component_Inr: "\<exists>nb'. add_component nb c = Inr nb'"
  by (simp add: add_component_def add_int_def add_flag_def)

lemma audio_encode_loop_Some:
  assumes r: "audio_encode_loop count comps a_c nb = Some y"
  shows "\<not> (0 < count \<and> comps \<noteq> [] \<and> a_c = 0)"
proof (rule audio_encode_loop.raw_induct
    [where P = "\<lambda>c cs a n y. \<not> (0 < c \<and> cs \<noteq> [] \<and> a = 0)", OF _ r])
  fix f :: "nat \<Rightarrow> audio_component list \<Rightarrow> nat \<Rightarrow> nbin \<Rightarrow> (error + nbin) option"
    and c cs a n res
  assume IH: "\<And>c cs a n y. f c cs a n = Some y \<Longrightarrow> \<not> (0 < c \<and> cs \<noteq> [] \<and> a = 0)"
    and step: "(if a < c
      then if a < length cs
           then case add_component n (cs ! a) of Inl e \<Rightarrow> Some (Inl e)
                | Inr nb' \<Rightarrow> f c cs a nb'
           else Some (Inl IndexError)
      else Some (Inr n)) = Some res"
  show "\<not> (0 < c \<and> cs \<noteq> [] \<and> a = 0)"
  proof
    assume h: "0 < c \<and> cs \<noteq> [] \<and> a = 0"
    obtain nb' where nb': "add_component n (cs ! a) = Inr nb'"
      using add_component_Inr by blast
    from h have "a < c" "a < length cs" by auto
    with step nb' have "f c cs a nb' = Some res" by simp
    from IH[OF this] h show False by blast
  qed
qed

lemma audio_encode_loop_diverges:
  assumes "0 < count" "comps \<noteq> []"
  shows "audio_encode_loop count comps 0 nb = None"
  using audio_encode_loop_Some[of count comps 0 nb] assms
  by (cases "audio_encode_loop count comps 0 nb") auto

lemma audio_decode_one:
  "bindE (AudioDescriptor (Some [0x04, 0x0A, 0x43, 0x55, 0x45, 0x49, 0x1F, 0x01, 0x65, 0x6E,
       0x67, 0x0D])) audio_decode =
   Inr (\<lparr>tag = Some 4, descriptor_length = Some 10, identifier = Some ''CUEI'',
          bites = Some [0x43, 0x55, 0x45, 0x49, 0x1F, 0x01, 0x65, 0x6E, 0x67, 0x0D],
          name = Some ''Audio Descriptor'',
          audio_components = [\<lparr>component_tag = 1, ISO_code = 0x656E67, bit_stream_mode = 0,
                     num_channels = 6, full_srvc_audio = True\<rparr>], audio_count = Some 1\<rparr>, [])"
  by (simp add: AudioDescriptor_def audio_decode_def init_defs cursor_defs)

text \<open>
  C1 (round trip of Avail, DTMF, Time and Audio). The Audio descriptor of the bytes
  04 0A "CUEI" 1F 01 65 6E 67 0D, with one component, decodes; the encode of the decoded
  descriptor does not return, so it reproduces no bytes.
\<close>

theorem audio_roundtrip_diverges:
  "(case bindE (AudioDescriptor (Some [0x04, 0x0A, 0x43, 0x55, 0x45, 0x49, 0x1F, 0x01, 0x65,
        0x6E, 0x67, 0x0D])) audio_decode of
      Inl e \<Rightarrow> False
    | Inr (d, out) \<Rightarrow> audio_count d = Some 1 \<and> audio_encode d = None)"
  by (simp add: audio_decode_one audio_encode_def encode_defs audio_encode_loop_diverges)

lemma audio_decode_loop_numeral:
  "audio_decode_loop (numeral k) bb comps =
     bindE (asint bb 8) (\<lambda>(ct, bb1).
     bindE (asint bb1 24) (\<lambda>(iso, bb2).
     bindE (asint bb2 3) (\<lambda>(bsm, bb3).
     bindE (asint bb3 4) (\<lambda>(nc, bb4).
     bindE (asflag bb4 1) (\<lambda>(fsa, bb5).
       audio_decode_loop (pred_numeral k) bb5
         (comps @ [\<lparr>component_tag = ct, ISO_code = iso, bit_stream_mode = bsm,
                     num_channels = nc, full_srvc_audio = fsa\<rparr>]))))))"
  by (simp add: numeral_eq_Suc)

lemma audio_decode_two:
  "bindE (AudioDescriptor (Some [0x04, 0x0F, 0x43, 0x55, 0x45, 0x49, 0x2F, 0x01, 0x65, 0x6E,
       0x67, 0x0D, 0x02, 0x66, 0x72, 0x61, 0x0C])) audio_decode =
   Inr (\<lparr>tag = Some 4, descriptor_length = Some 15, identifier = Some ''CUEI'',
          bites = Some [0x43, 0x55, 0x45, 0x49, 0x2F, 0x01, 0x65, 0x6E, 0x67, 0x0D, 0x02,
            0x66, 0x72, 0x61, 0x0C],
          name = Some ''Audio Descriptor'',
          audio_components =
            [\<lparr>component_tag = 1, ISO_code = 0x656E67, bit_stream_mode = 0,
               num_channels = 6, full_srvc_audio = True\<rparr>,
             \<lparr>component_tag = 2, ISO_code = 0x667261, bit_stream_mode = 0,
               num_channels = 6, full_srvc_audio = False\<rparr>],
          audio_count = Some 2\<rparr>, [])"
  by (simp add: AudioDescriptor_def audio_decode_def init_defs cursor_defs
        audio_decode_loop_numeral)

text \<open>
  C10 (the encode of Avail, DTMF, Time and Audio returns \<open>None\<close>). The Audio descriptor
  of the bytes 04 0F "CUEI" 2F 01 65 6E 67 0D 02 66 72 61 0C, with two components,
  decodes; the encode of the decoded descriptor does not return at all.
\<close>

theorem audio_encode_never_returns:
  "(case bindE (AudioDescriptor (Some [0x04, 0x0F, 0x43, 0x55, 0x45, 0x49, 0x2F, 0x01, 0x65,
        0x6E, 0x67, 0x0D, 0x02, 0x66, 0x72, 0x61, 0x0C])) audio_decode of
      Inl e \<Rightarrow> False
    | Inr (d, out) \<Rightarrow> audio_count d = Some 2 \<and> audio_encode d = None)"
  by (simp add: audio_decode_two audio_encode_def encode_defs audio_encode_loop_diverges)

subsection \<open>What encode changes and returns\<close>

lemma bindE_eq_Inr: "bindE m f = Inr r \<longleftrightarrow> (\<exists>a. m = Inr a \<and> f a = Inr r)"
  by (cases m) simp_all

lemma bindO_eq_Some_Inr:
  "bindO m f = Some (Inr r) \<longleftrightarrow> (\<exists>a. m = Some (Inr a) \<and> f a = Some (Inr r))"
  by (cases m) (auto simp: bindO_def split: sum.splits)

lemma encode_result:
  "encode d = Inr (d', nb) \<Longrightarrow> d' = d\<lparr>identifier := Some ''0x43554549''\<rparr>"
  by (auto simp: encode_def encode_id_def Let_def bindE_eq_Inr)

lemma avail_encode_result:
  "avail_encode d = Inr (d', out, r) \<Longrightarrow> d' = d\<lparr>identifier := Some ''0x43554549''\<rparr> \<and> r = None"
  by (auto simp: avail_encode_def bindE_eq_Inr dest: encode_result)

lemma dtmf_encode_result:
  "dtmf_encode d = Inr (d', out, r) \<Longrightarrow> d' = d\<lparr>identifier := Some ''0x43554549''\<rparr> \<and> r = None"
  by (auto simp: dtmf_encode_def bindE_eq_Inr dest: encode_result)

lemma time_encode_result:
  "time_encode d = Inr (d', out, r) \<Longrightarrow> d' = d\<lparr>identifier := Some ''0x43554549''\<rparr> \<and> r = None"
  by (auto simp: time_encode_def bindE_eq_Inr dest: encode_result)

lemma audio_encode_result:
  "audio_encode d = Some (Inr (d', out, r)) \<Longrightarrow>
     d' = d\<lparr>identifier := Some ''0x43554549''\<rparr> \<and> r = None"
  by (auto simp: audio_encode_def split: sum.splits option.splits prod.splits
        dest: encode_result)

lemma time_decode_sample:
  "bindE (TimeDescriptor (Some [0x03, 0x10, 0x43, 0x55, 0x45, 0x49, 0, 0, 0, 0, 0, 5,
       0, 0, 0, 2, 0, 3])) time_decode =
   Inr (\<lparr>tag = Some 3, descriptor_length = Some 16, identifier = Some ''CUEI'',
          bites = Some [0x43, 0x55, 0x45, 0x49, 0, 0, 0, 0, 0, 5, 0, 0, 0, 2, 0, 3],
          name = Some ''Time Descriptor'', tai_seconds = Some 5, tai_ns = Some 2,
          utc_offset = Some 3\<rparr>, [])"
  by (simp add: TimeDescriptor_def time_decode_def init_defs cursor_defs)

lemma time_encode_sample:
  "time_encode
     \<lparr>tag = Some 3, descriptor_length = Some 16, identifier = Some ''CUEI'',
      bites = Some [0x43, 0x55, 0x45, 0x49, 0, 0, 0, 0, 0, 5, 0, 0, 0, 2, 0, 3],
      name = Some ''Time Descriptor'', tai_seconds = Some 5, tai_ns = Some 2,
      utc_offset = Some 3\<rparr> =
   Inr (\<lparr>tag = Some 3, descriptor_length = Some 16, identifier = Some ''0x43554549'',
          bites = Some [0x43, 0x55, 0x45, 0x49, 0, 0, 0, 0, 0, 5, 0, 0, 0, 2, 0, 3],
          name = Some ''Time Descriptor'', tai_seconds = Some 5, tai_ns = Some 2,
          utc_offset = Some 3\<rparr>,
        [DescriptorBytes [0x03, 0x10, 0x43, 0x55, 0x45, 0x49, 0, 0, 0, 0, 0, 5,
           0, 0, 0, 2, 0, 3]], None)"
  by (simp add: time_encode_def encode_defs nbin_bites_def bits_bytes_def NBin_def
        bl_to_nat_def)

text \<open>
  C4, as the claim states it, fails: the Time descriptor decoded from the bytes
  03 10 "CUEI" 00 00 00 00 00 05 00 00 00 02 00 03 holds the identifier \<open>CUEI\<close> that
  decode read, and after encode it holds the string \<open>0x43554549\<close>.
\<close>

theorem encode_overwrites_identifier:
  "(case bindE (TimeDescriptor (Some [0x03, 0x10, 0x43, 0x55, 0x45, 0x49, 0, 0, 0, 0, 0, 5,
        0, 0, 0, 2, 0, 3])) time_decode of
      Inl e \<Rightarrow> False
    | Inr (d, out) \<Rightarrow>
        identifier d = Some ''CUEI'' \<and>
        (case time_encode d of
           Inl e \<Rightarrow> False
         | Inr (d', out', r) \<Rightarrow>
             identifier d' = Some ''0x43554549'' \<and> identifier d' \<noteq> identifier d))"
  by (simp add: time_decode_sample time_encode_sample)

text \<open>
  C4, amended: whenever the encode of an instance returns, the instance is as before but
  for its identifier, which holds the string \<open>0x43554549\<close>.
\<close>

theorem encode_changes_identifier_only:
  assumes "descriptor_encode spliced = Some (Inr (spliced', out, r))"
  shows "spliced' = with_identifier (Some ''0x43554549'') spliced"
proof (cases spliced)
  case (Avail d)
  with assms show ?thesis
    by (auto simp: descriptor_encode_def with_identifier_def bindE_eq_Inr
          dest: avail_encode_result)
next
  case (Dtmf d)
  with assms show ?thesis
    by (auto simp: descriptor_encode_def with_identifier_def bindE_eq_Inr
          dest: dtmf_encode_result)
next
  case (Segmentation d)
  with assms show ?thesis
    by (auto simp: descriptor_encode_def with_identifier_def bindE_eq_Inr
          dest: encode_result)
next
  case (Time d)
  with assms show ?thesis
    by (auto simp: descriptor_encode_def with_identifier_def bindE_eq_Inr
          dest: time_encode_result)
next
  case (Audio d)
  with assms show ?thesis
    by (auto simp: descriptor_encode_def with_identifier_def bindO_eq_Some_Inr
          dest: audio_encode_result)
qed

theorem encode_changes_identifier_only_witness:
  "descriptor_encode (Time
     \<lparr>tag = Some 3, descriptor_length = Some 16, identifier = Some ''CUEI'',
      bites = Some [0x43, 0x55, 0x45, 0x49, 0, 0, 0, 0, 0, 5, 0, 0, 0, 2, 0, 3],
      name = Some ''Time Descriptor'', tai_seconds = Some 5, tai_ns = Some 2,
      utc_offset = Some 3\<rparr>) =
   Some (Inr (Time
     \<lparr>tag = Some 3, descriptor_length = Some 16, identifier = Some ''0x43554549'',
      bites = Some [0x43, 0x55, 0x45, 0x49, 0, 0, 0, 0, 0, 5, 0, 0, 0, 2, 0, 3],
      name = Some ''Time Descriptor'', tai_seconds = Some 5, tai_ns = Some 2,
      utc_offset = Some 3\<rparr>,
     [DescriptorBytes [0x03, 0x10, 0x43, 0x55, 0x45, 0x49, 0, 0, 0, 0, 0, 5,
        0, 0, 0, 2, 0, 3]], None)) \<and>
   Time
     \<lparr>tag = Some 3, descriptor_length = Some 16, identifier = Some ''0x43554549'',
      bites = Some [0x43, 0x55, 0x45, 0x49, 0, 0, 0, 0, 0, 5, 0, 0, 0, 2, 0, 3],
      name = Some ''Time Descriptor'', tai_seconds = Some 5, tai_ns = Some 2,
      utc_offset = Some 3\<rparr> =
   with_identifier (Some ''0x43554549'') (Time
     \<lparr>tag = Some 3, descriptor_length = Some 16, identifier = Some ''CUEI'',
      bites = Some [0x43, 0x55, 0x45, 0x49, 0, 0, 0, 0, 0, 5, 0, 0, 0, 2, 0, 3],
      name = Some ''Time Descriptor'', tai_seconds = Some 5, tai_ns = Some 2,
      utc_offset = Some 3\<rparr>)"
proof -
  have h: "descriptor_encode (Time
     \<lparr>tag = Some 3, descriptor_length = Some 16, identifier = Some ''CUEI'',
      bites = Some [0x43, 0x55, 0x45, 0x49, 0, 0, 0, 0, 0, 5, 0, 0, 0, 2, 0, 3],
      name = Some ''Time Descriptor'', tai_seconds = Some 5, tai_ns = Some 2,
      utc_offset = Some 3\<rparr>) =
   Some (Inr (Time
     \<lparr>tag = Some 3, descriptor_length = Some 16, identifier = Some ''0x43554549'',
      bites = Some [0x43, 0x55, 0x45, 0x49, 0, 0, 0, 0, 0, 5, 0, 0, 0, 2, 0, 3],
      name = Some ''Time Descriptor'', tai_seconds = Some 5, tai_ns = Some 2,
      utc_offset = Some 3\<rparr>,
     [DescriptorBytes [0x03, 0x10, 0x43, 0x55, 0x45, 0x49, 0, 0, 0, 0, 0, 5,
        0, 0, 0, 2, 0, 3]], None))"
    by (simp add: descriptor_encode_def time_encode_sample)
  from h encode_changes_identifier_only [OF h] show ?thesis by simp
qed

end
